theory Spec2Isabelle
  imports Main "HOL-Library.Char_ord" "HOL-Library.List_Lexorder" "HOL-Library.AList"
begin

section \<open>Strings as byte sequences\<close>

text \<open>
  A Go \<^verbatim>\<open>string\<close> is a sequence of bytes, and so is \<^typ>\<open>string\<close> here: one
  \<^typ>\<open>char\<close> per byte. The functions of this section are the ones of Go's packages
  \<^verbatim>\<open>unicode/utf8\<close>, \<^verbatim>\<open>unicode\<close> and \<^verbatim>\<open>strings\<close> that
  \<^verbatim>\<open>confy.go\<close> calls, at the level of bytes.
\<close>

definition byte :: "char \<Rightarrow> nat" where
  "byte c = of_char c"

definition RuneError :: nat where
  "RuneError = 0xFFFD"

definition RuneSelf :: nat where
  "RuneSelf = 0x80"

definition UTFMax :: nat where
  "UTFMax = 4"

text \<open>
  The table \<^verbatim>\<open>first\<close> of \<^verbatim>\<open>unicode/utf8\<close> together with \<^verbatim>\<open>acceptRanges\<close>:
  for a lead byte of a multi-byte sequence, the length of the sequence and the range the
  second byte must lie in; \<open>None\<close> for a byte that starts no multi-byte sequence.
\<close>

definition first :: "nat \<Rightarrow> (nat \<times> nat \<times> nat) option" where
  "first c =
     (if 0xC2 \<le> c \<and> c \<le> 0xDF then Some (2, 0x80, 0xBF)
      else if c = 0xE0 then Some (3, 0xA0, 0xBF)
      else if 0xE1 \<le> c \<and> c \<le> 0xEC then Some (3, 0x80, 0xBF)
      else if c = 0xED then Some (3, 0x80, 0x9F)
      else if 0xEE \<le> c \<and> c \<le> 0xEF then Some (3, 0x80, 0xBF)
      else if c = 0xF0 then Some (4, 0x90, 0xBF)
      else if 0xF1 \<le> c \<and> c \<le> 0xF3 then Some (4, 0x80, 0xBF)
      else if c = 0xF4 then Some (4, 0x80, 0x8F)
      else None)"

definition contByte :: "nat \<Rightarrow> bool" where
  "contByte c \<longleftrightarrow> 0x80 \<le> c \<and> c \<le> 0xBF"

text \<open>\<^verbatim>\<open>utf8.DecodeRuneInString\<close>: the first rune of the string and its width in bytes.\<close>

definition DecodeRuneInString :: "string \<Rightarrow> nat \<times> nat" where
  "DecodeRuneInString s =
     (let n = length s in
      if n < 1 then (RuneError, 0)
      else
        let s0 = byte (s ! 0) in
        if s0 < RuneSelf then (s0, 1)
        else case first s0 of
          None \<Rightarrow> (RuneError, 1)
        | Some (sz, lo, hi) \<Rightarrow>
            if n < sz then (RuneError, 1)
            else
              let s1 = byte (s ! 1) in
              if s1 < lo \<or> hi < s1 then (RuneError, 1)
              else if sz \<le> 2 then ((s0 mod 32) * 64 + s1 mod 64, 2)
              else
                let s2 = byte (s ! 2) in
                if \<not> contByte s2 then (RuneError, 1)
                else if sz \<le> 3 then ((s0 mod 16) * 4096 + (s1 mod 64) * 64 + s2 mod 64, 3)
                else
                  let s3 = byte (s ! 3) in
                  if \<not> contByte s3 then (RuneError, 1)
                  else ((s0 mod 8) * 262144 + (s1 mod 64) * 4096 + (s2 mod 64) * 64
                          + s3 mod 64, 4))"

definition RuneStart :: "nat \<Rightarrow> bool" where
  "RuneStart b \<longleftrightarrow> \<not> contByte b"

text \<open>
  The backwards loop of \<^verbatim>\<open>utf8.DecodeLastRuneInString\<close>:
  \<^verbatim>\<open>for start--; start >= lim; start-- { if RuneStart(s[start]) { break } }\<close>,
  entered with \<open>start\<close> already decremented.
\<close>

function backToStart :: "string \<Rightarrow> int \<Rightarrow> int \<Rightarrow> int" where
  "backToStart s start lim =
     (if start \<ge> lim
      then (if RuneStart (byte (s ! nat start)) then start else backToStart s (start - 1) lim)
      else start)"
  by pat_completeness auto
termination
  by (relation "measure (\<lambda>(s, start, lim). nat (start - lim + 1))") auto

declare backToStart.simps [simp del]

definition DecodeLastRuneInString :: "string \<Rightarrow> nat \<times> nat" where
  "DecodeLastRuneInString s =
     (let end = length s in
      if end = 0 then (RuneError, 0)
      else
        let r = byte (s ! (end - 1)) in
        if r < RuneSelf then (r, 1)
        else
          let lim = max 0 (int end - int UTFMax);
              start = max 0 (backToStart s (int end - 2) lim);
              (r', size) = DecodeRuneInString (drop (nat start) s)
          in if nat start + size \<noteq> end then (RuneError, 1) else (r', size))"

text \<open>\<^verbatim>\<open>utf8.RuneCountInString\<close>: the loop advances by the width of each rune.\<close>

lemma first_size: "first c = Some (sz, lo, hi) \<Longrightarrow> sz = 2 \<or> sz = 3 \<or> sz = 4"
  by (auto simp: first_def split: if_splits)

lemma DecodeRuneInString_width:
  assumes "s \<noteq> []"
  shows "1 \<le> snd (DecodeRuneInString s) \<and> snd (DecodeRuneInString s) \<le> length s"
proof (cases "first (byte (s ! 0))")
  case None
  with assms show ?thesis
    by (cases s) (simp_all add: DecodeRuneInString_def Let_def)
next
  case (Some t)
  obtain sz lo hi where t: "t = (sz, lo, hi)" by (cases t)
  from first_size Some t have "sz = 2 \<or> sz = 3 \<or> sz = 4" by blast
  with assms Some t show ?thesis
    by (cases s) (auto simp: DecodeRuneInString_def Let_def Suc_le_eq)
qed

lemma backToStart_le: "backToStart s start lim \<le> start"
proof (induction s start lim rule: backToStart.induct)
  case (1 s start lim)
  show ?case
  proof (cases "start \<ge> lim \<and> \<not> RuneStart (byte (s ! nat start))")
    case True
    with 1 have "backToStart s (start - 1) lim \<le> start - 1" by simp
    with True show ?thesis by (subst backToStart.simps) simp
  next
    case False
    then show ?thesis by (subst backToStart.simps) auto
  qed
qed

lemma DecodeLastRuneInString_width:
  assumes ne: "s \<noteq> []"
  shows "1 \<le> snd (DecodeLastRuneInString s) \<and> snd (DecodeLastRuneInString s) \<le> length s"
proof -
  from ne have len: "1 \<le> length s" by (cases s) simp_all
  have "snd (DecodeLastRuneInString s) = 1
      \<or> (\<exists>k. snd (DecodeLastRuneInString s) = snd (DecodeRuneInString (drop k s))
              \<and> k + snd (DecodeRuneInString (drop k s)) = length s \<and> k < length s)"
  proof (cases "byte (s ! (length s - 1)) < RuneSelf")
    case True
    with ne show ?thesis by (simp add: DecodeLastRuneInString_def Let_def)
  next
    case False
    define k where "k = nat (max 0 (backToStart s (int (length s) - 2)
      (max 0 (int (length s) - int UTFMax))))"
    have klt: "k < length s"
      using backToStart_le [of s "int (length s) - 2" "max 0 (int (length s) - int UTFMax)"] len
      unfolding k_def by simp
    show ?thesis
    proof (cases "k + snd (DecodeRuneInString (drop k s)) = length s")
      case True
      with False ne have "snd (DecodeLastRuneInString s) = snd (DecodeRuneInString (drop k s))"
        unfolding DecodeLastRuneInString_def Let_def k_def [symmetric]
        by (auto split: prod.splits)
      with True klt show ?thesis by blast
    next
      case neq: False
      with False ne have "snd (DecodeLastRuneInString s) = 1"
        unfolding DecodeLastRuneInString_def Let_def k_def [symmetric]
        by (auto split: prod.splits)
      then show ?thesis by blast
    qed
  qed
  then show ?thesis
  proof
    assume "snd (DecodeLastRuneInString s) = 1"
    with len show ?thesis by simp
  next
    assume "\<exists>k. snd (DecodeLastRuneInString s) = snd (DecodeRuneInString (drop k s))
              \<and> k + snd (DecodeRuneInString (drop k s)) = length s \<and> k < length s"
    then obtain k where k: "snd (DecodeLastRuneInString s) = snd (DecodeRuneInString (drop k s))"
      "k + snd (DecodeRuneInString (drop k s)) = length s" "k < length s" by blast
    then have "drop k s \<noteq> []" by simp
    from DecodeRuneInString_width [OF this] k show ?thesis by simp
  qed
qed

function RuneCountInString :: "string \<Rightarrow> nat" where
  "RuneCountInString s =
     (if s = [] then 0
      else Suc (RuneCountInString (drop (snd (DecodeRuneInString s)) s)))"
  by pat_completeness auto
termination
proof (relation "measure length")
  fix s :: string
  assume "s \<noteq> []"
  from DecodeRuneInString_width [OF this] this
  show "(drop (snd (DecodeRuneInString s)) s, s) \<in> measure length" by simp
qed simp

declare RuneCountInString.simps [simp del]

text \<open>\<^verbatim>\<open>unicode.IsSpace\<close>: the Latin-1 cases, then the \<^verbatim>\<open>White_Space\<close> table.\<close>

definition IsSpace :: "nat \<Rightarrow> bool" where
  "IsSpace r \<longleftrightarrow>
     (if r \<le> 0xFF
      then r = 0x09 \<or> r = 0x0A \<or> r = 0x0B \<or> r = 0x0C \<or> r = 0x0D \<or> r = 0x20
             \<or> r = 0x85 \<or> r = 0xA0
      else r = 0x1680 \<or> (0x2000 \<le> r \<and> r \<le> 0x200A) \<or> r = 0x2028 \<or> r = 0x2029
             \<or> r = 0x202F \<or> r = 0x205F \<or> r = 0x3000)"

text \<open>The table \<^verbatim>\<open>asciiSpace\<close> of package \<^verbatim>\<open>strings\<close>.\<close>

definition asciiSpace :: "nat \<Rightarrow> bool" where
  "asciiSpace c \<longleftrightarrow> c = 0x09 \<or> c = 0x0A \<or> c = 0x0B \<or> c = 0x0C \<or> c = 0x0D \<or> c = 0x20"

text \<open>
  \<^verbatim>\<open>strings.indexFunc\<close> ranges over the runes of the string from byte offset \<open>i\<close> on
  and returns the offset of the first rune \<open>r\<close> with \<open>f r = truth\<close>, or \<open>-1\<close>.
\<close>

function indexFuncFrom :: "string \<Rightarrow> nat \<Rightarrow> (nat \<Rightarrow> bool) \<Rightarrow> bool \<Rightarrow> int" where
  "indexFuncFrom s i f truth =
     (if length s \<le> i then - 1
      else
        let rw = DecodeRuneInString (drop i s) in
        if f (fst rw) = truth then int i else indexFuncFrom s (i + snd rw) f truth)"
  by pat_completeness auto
termination
proof (relation "measure (\<lambda>(s, i, f, truth). length s - i)")
  fix s :: string and i :: nat and f :: "nat \<Rightarrow> bool" and truth :: bool
    and rw :: "nat \<times> nat"
  assume a: "\<not> length s \<le> i" and rw: "rw = DecodeRuneInString (drop i s)"
  from a have "drop i s \<noteq> []" by simp
  from DecodeRuneInString_width [OF this] a
  show "((s, i + snd rw, f, truth), (s, i, f, truth)) \<in> measure (\<lambda>(s, i, f, truth). length s - i)"
    unfolding rw by simp linarith
qed simp

declare indexFuncFrom.simps [simp del]

definition indexFunc :: "string \<Rightarrow> (nat \<Rightarrow> bool) \<Rightarrow> bool \<Rightarrow> int" where
  "indexFunc s f truth = indexFuncFrom s 0 f truth"

text \<open>
  \<^verbatim>\<open>strings.lastIndexFunc\<close>:
  \<^verbatim>\<open>for i := len(s); i > 0; { r, size := DecodeLastRuneInString(s[0:i]); i -= size; ... }\<close>.
\<close>

function lastIndexFuncFrom :: "string \<Rightarrow> nat \<Rightarrow> (nat \<Rightarrow> bool) \<Rightarrow> bool \<Rightarrow> int" where
  "lastIndexFuncFrom s i f truth =
     (if i = 0 \<or> length s < i then - 1
      else
        let rw = DecodeLastRuneInString (take i s);
            i' = i - snd rw
        in if f (fst rw) = truth then int i' else lastIndexFuncFrom s i' f truth)"
  by pat_completeness auto
termination
proof (relation "measure (\<lambda>(s, i, f, truth). i)")
  fix s :: string and i :: nat and f :: "nat \<Rightarrow> bool" and truth :: bool
    and rw :: "nat \<times> nat" and i' :: nat
  assume a: "\<not> (i = 0 \<or> length s < i)" and rw: "rw = DecodeLastRuneInString (take i s)"
    and i': "i' = i - snd rw"
  from a have "take i s \<noteq> []" by auto
  from DecodeLastRuneInString_width [OF this] a
  show "((s, i', f, truth), (s, i, f, truth)) \<in> measure (\<lambda>(s, i, f, truth). i)"
    unfolding rw i' by simp
qed simp

declare lastIndexFuncFrom.simps [simp del]

definition lastIndexFunc :: "string \<Rightarrow> (nat \<Rightarrow> bool) \<Rightarrow> bool \<Rightarrow> int" where
  "lastIndexFunc s f truth = lastIndexFuncFrom s (length s) f truth"

definition TrimLeftFunc :: "string \<Rightarrow> (nat \<Rightarrow> bool) \<Rightarrow> string" where
  "TrimLeftFunc s f =
     (let i = indexFunc s f False in
      if i = - 1 then [] else drop (nat i) s)"

definition TrimRightFunc :: "string \<Rightarrow> (nat \<Rightarrow> bool) \<Rightarrow> string" where
  "TrimRightFunc s f =
     (let i = lastIndexFunc s f False;
          i' = (if 0 \<le> i \<and> RuneSelf \<le> byte (s ! nat i)
                then i + int (snd (DecodeRuneInString (drop (nat i) s)))
                else i + 1)
      in take (nat i') s)"

definition TrimFunc :: "string \<Rightarrow> (nat \<Rightarrow> bool) \<Rightarrow> string" where
  "TrimFunc s f = TrimRightFunc (TrimLeftFunc s f) f"

text \<open>
  \<^verbatim>\<open>strings.TrimSpace\<close>: two loops over ASCII bytes, the first from the front and the
  second from the back; each hands over to the rune-wise trimming as soon as it
  meets a byte outside ASCII.
\<close>

function trimStop :: "string \<Rightarrow> string" where
  "trimStop s =
     (if s = [] then []
      else
        let c = byte (last s) in
        if RuneSelf \<le> c then TrimRightFunc s IsSpace
        else if \<not> asciiSpace c then s
        else trimStop (butlast s))"
  by pat_completeness auto
termination
  by (relation "measure length") auto

declare trimStop.simps [simp del]

fun TrimSpace :: "string \<Rightarrow> string" where
  "TrimSpace [] = trimStop []"
| "TrimSpace (c # cs) =
     (if RuneSelf \<le> byte c then TrimFunc (c # cs) IsSpace
      else if \<not> asciiSpace (byte c) then trimStop (c # cs)
      else TrimSpace cs)"

definition HasPrefix :: "string \<Rightarrow> string \<Rightarrow> bool" where
  "HasPrefix s pre \<longleftrightarrow> length pre \<le> length s \<and> take (length pre) s = pre"

text \<open>
  \<^verbatim>\<open>strings.IndexAny\<close> for a set \<open>chars\<close> of ASCII characters (here always
  \<^verbatim>\<open>"=:"\<close>): the offset of the first byte of \<open>s\<close> that is in \<open>chars\<close>, or \<open>-1\<close>.
\<close>

fun IndexAny :: "string \<Rightarrow> string \<Rightarrow> int" where
  "IndexAny [] chars = - 1"
| "IndexAny (c # cs) chars =
     (if c \<in> set chars then 0
      else let i = IndexAny cs chars in if i = - 1 then - 1 else i + 1)"

text \<open>
  \<^verbatim>\<open>strings.Replace(s, old, new, -1)\<close> for a non-empty \<open>old\<close>: every occurrence,
  from the left, without overlap.
\<close>

function Replace :: "string \<Rightarrow> string \<Rightarrow> string \<Rightarrow> string" where
  "Replace s old new =
     (if s = [] then []
      else if old \<noteq> [] \<and> HasPrefix s old then new @ Replace (drop (length old) s) old new
      else hd s # Replace (tl s) old new)"
  by pat_completeness auto
termination
  by (relation "measure (\<lambda>(s, old, new). length s)") (auto simp: HasPrefix_def)

declare Replace.simps [simp del]

section \<open>Reading lines: \<^verbatim>\<open>bufio.Scanner\<close>\<close>

text \<open>
  \<^verbatim>\<open>bufio.NewScanner\<close> splits with \<^verbatim>\<open>ScanLines\<close> and holds a token in a buffer of at
  most \<^verbatim>\<open>MaxScanTokenSize\<close> bytes, the newline included. \<open>scanLines data\<close> is the list
  of the texts \<^verbatim>\<open>scanner.Text()\<close> returns while \<^verbatim>\<open>scanner.Scan()\<close> is true, when the
  reader delivers \<open>data\<close>. On a line that does not fit the buffer \<^verbatim>\<open>Scan\<close> returns false
  (with \<^verbatim>\<open>ErrTooLong\<close>, which \<^verbatim>\<open>parseConfig\<close> never reads), and the loop ends there.
\<close>

definition MaxScanTokenSize :: int where
  "MaxScanTokenSize = 64 * 1024"

definition newline :: char where
  "newline = CHR 0x0A"

definition dropCR :: "string \<Rightarrow> string" where
  "dropCR data = (if data \<noteq> [] \<and> last data = CHR 0x0D then butlast data else data)"

function scanLines :: "string \<Rightarrow> string list" where
  "scanLines data =
     (if data = [] then []
      else
        let line = takeWhile (\<lambda>c. c \<noteq> newline) data in
        if MaxScanTokenSize \<le> int (length line) then []
        else if length line < length data
          then dropCR line # scanLines (drop (length line + 1) data)
          else [dropCR line])"
  by pat_completeness auto
termination
  by (relation "measure length") auto

declare scanLines.simps [simp del]

section \<open>The option registry: package \<^verbatim>\<open>flag\<close>\<close>

text \<open>
  A \<^verbatim>\<open>flag.Value\<close> is an interface value: a pointer to the variable behind the flag,
  with the methods of its dynamic type. The pointer is an address (\<^typ>\<open>nat\<close>) into
  the \<open>heap\<close> of the flag set, and two flags share their value when they hold the
  same address. The variable's state has type \<open>'v\<close>; the methods are the record below.
  \<open>Value_Set\<close> returns the new state together with the error: the \<^verbatim>\<open>Set\<close> of
  \<^verbatim>\<open>*boolValue\<close> and of the numeric values stores what the parser returned also when
  it reports an error.
\<close>

record 'v ValueMethods =
  Value_Set :: "'v \<Rightarrow> string \<Rightarrow> 'v \<times> string option"
  Value_String :: "'v \<Rightarrow> string"
  Value_IsBoolFlag :: "'v \<Rightarrow> bool"

record Flag =
  Name :: string
  Usage :: string
  Value :: nat
  DefValue :: string

datatype ErrorHandling = ContinueOnError | ExitOnError | PanicOnError

text \<open>
  \<^verbatim>\<open>flag.FlagSet\<close>, as far as \<^verbatim>\<open>confy.go\<close> reaches it: \<open>formal\<close> is the map from
  names to flags, kept as the list of its flags (their names are pairwise distinct, since
  \<^verbatim>\<open>flag.Var\<close> panics on a name defined twice), \<open>args\<close> the arguments left after
  parsing.
\<close>

record 'v FlagSet =
  formal :: "Flag list"
  heap :: "nat \<Rightarrow> 'v"
  parsed :: bool
  args :: "string list"
  errorHandling :: ErrorHandling

datatype error =
    FlagsParsedAlready
  | UserCurrentFailed string string
  | UnableToRead string string string
  | FailedToWrite string string
  | NoSuchFlag string
  | ValueSetFailed string
  | BadFlagSyntax string
  | ErrHelp
  | FlagNotDefined string
  | InvalidBooleanValue string string string
  | InvalidBooleanFlag string string
  | FlagNeedsArgument string
  | InvalidValue string string string

definition lookup :: "Flag list \<Rightarrow> string \<Rightarrow> Flag option" where
  "lookup fl name = find (\<lambda>f. Name f = name) fl"

text \<open>\<^verbatim>\<open>flag.Parsed()\<close>\<close>

definition Parsed :: "'v FlagSet \<Rightarrow> bool" where
  "Parsed f = parsed f"

text \<open>
  \<^verbatim>\<open>flag.Set(name, value)\<close>: the error and the flag set afterwards. (The sets
  \<^verbatim>\<open>actual\<close> and \<^verbatim>\<open>undef\<close> that \<^verbatim>\<open>Set\<close> also updates are read by nothing in
  \<^verbatim>\<open>confy.go\<close> and are left out of the record.)
\<close>

definition flag_Set :: "'v ValueMethods \<Rightarrow> 'v FlagSet \<Rightarrow> string \<Rightarrow> string \<Rightarrow> error option \<times> 'v FlagSet" where
  "flag_Set M f name val =
     (case lookup (formal f) name of
        None \<Rightarrow> (Some (NoSuchFlag name), f)
      | Some flg \<Rightarrow>
          let (v', err) = Value_Set M (heap f (Value flg)) val;
              f' = f\<lparr>heap := fun_upd (heap f) (Value flg) v'\<rparr>
          in (case err of
                Some e \<Rightarrow> (Some (ValueSetFailed e), f')
              | None \<Rightarrow> (None, f')))"

text \<open>\<^verbatim>\<open>flag.VisitAll\<close> visits the flags in lexicographical order of their names.\<close>

definition sortFlags :: "Flag list \<Rightarrow> Flag list" where
  "sortFlags fl = sort_key Name fl"

text \<open>
  \<^verbatim>\<open>(*FlagSet).parseOne\<close>: whether a flag was seen, the error, and the flag set
  afterwards. \<open>splitEq name\<close> is the loop that looks for the first \<^verbatim>\<open>=\<close> of the
  name after its first byte: the name, whether there is a value, and the value.
\<close>

definition splitEq :: "string \<Rightarrow> string \<times> bool \<times> string" where
  "splitEq name =
     (let i = IndexAny (drop 1 name) ''='' in
      if i = - 1 then (name, False, [])
      else (take (nat i + 1) name, True, drop (nat i + 2) name))"

definition setHeap :: "'v FlagSet \<Rightarrow> nat \<Rightarrow> 'v \<Rightarrow> 'v FlagSet" where
  "setHeap f a v = f\<lparr>heap := fun_upd (heap f) a v\<rparr>"

definition parseOne :: "'v ValueMethods \<Rightarrow> 'v FlagSet \<Rightarrow> bool \<times> error option \<times> 'v FlagSet" where
  "parseOne M f =
     (case args f of
        [] \<Rightarrow> (False, None, f)
      | s # rest \<Rightarrow>
          if length s < 2 \<or> s ! 0 \<noteq> CHR ''-'' then (False, None, f)
          else if s ! 1 = CHR ''-'' \<and> length s = 2 then (False, None, f\<lparr>args := rest\<rparr>)
          else
            let numMinuses = (if s ! 1 = CHR ''-'' then 2 else 1);
                name0 = drop numMinuses s
            in
              if length name0 = 0 \<or> name0 ! 0 = CHR ''-'' \<or> name0 ! 0 = CHR ''=''
              then (False, Some (BadFlagSyntax s), f)
              else
                let f1 = f\<lparr>args := rest\<rparr>;
                    (name, hasValue, val) = splitEq name0
                in
                  (case lookup (formal f1) name of
                     None \<Rightarrow>
                       if name = ''help'' \<or> name = ''h'' then (False, Some ErrHelp, f1)
                       else (False, Some (FlagNotDefined name), f1)
                   | Some flg \<Rightarrow>
                       if Value_IsBoolFlag M (heap f1 (Value flg)) then
                         (if hasValue then
                            (let (v', err) = Value_Set M (heap f1 (Value flg)) val;
                                 f2 = setHeap f1 (Value flg) v'
                             in (case err of
                                   Some e \<Rightarrow> (False, Some (InvalidBooleanValue val name e), f2)
                                 | None \<Rightarrow> (True, None, f2)))
                          else
                            (let (v', err) = Value_Set M (heap f1 (Value flg)) ''true'';
                                 f2 = setHeap f1 (Value flg) v'
                             in (case err of
                                   Some e \<Rightarrow> (False, Some (InvalidBooleanFlag name e), f2)
                                 | None \<Rightarrow> (True, None, f2))))
                       else
                         (let fromNext = (\<not> hasValue \<and> args f1 \<noteq> []);
                              hasValue' = (hasValue \<or> fromNext);
                              val' = (if fromNext then hd (args f1) else val);
                              f2 = (if fromNext then f1\<lparr>args := tl (args f1)\<rparr> else f1)
                          in
                            if \<not> hasValue' then (False, Some (FlagNeedsArgument name), f2)
                            else
                              (let (v', err) = Value_Set M (heap f2 (Value flg)) val';
                                   f3 = setHeap f2 (Value flg) v'
                               in (case err of
                                     Some e \<Rightarrow> (False, Some (InvalidValue val' name e), f3)
                                   | None \<Rightarrow> (True, None, f3))))))"

lemma parseOne_seen_shorter:
  "parseOne M f = (True, err, f') \<Longrightarrow> length (args f') < length (args f)"
  by (auto simp: parseOne_def Let_def setHeap_def split: list.splits if_splits prod.splits option.splits)

text \<open>
  What a call leaves behind: it returns (an error or \<^verbatim>\<open>nil\<close>), the process exits with
  a status, or it panics.
\<close>

datatype Outcome = Returns "error option" | Exits nat | Panics

text \<open>The loop of \<^verbatim>\<open>(*FlagSet).Parse\<close>, after \<open>parsed\<close> and \<open>args\<close> are set.\<close>

function parseLoop :: "'v ValueMethods \<Rightarrow> 'v FlagSet \<Rightarrow> Outcome \<times> 'v FlagSet" where
  "parseLoop M f =
     (case parseOne M f of
        (True, err, f') \<Rightarrow> parseLoop M f'
      | (False, None, f') \<Rightarrow> (Returns None, f')
      | (False, Some e, f') \<Rightarrow>
          (case errorHandling f' of
             ContinueOnError \<Rightarrow> (Returns (Some e), f')
           | ExitOnError \<Rightarrow> (if e = ErrHelp then (Exits 0, f') else (Exits 2, f'))
           | PanicOnError \<Rightarrow> (Panics, f')))"
  by pat_completeness auto
termination
  by (relation "measure (\<lambda>(M, f). length (args f))") (auto dest: parseOne_seen_shorter [OF sym])

declare parseLoop.simps [simp del]

definition FlagSet_Parse :: "'v ValueMethods \<Rightarrow> 'v FlagSet \<Rightarrow> string list \<Rightarrow> Outcome \<times> 'v FlagSet" where
  "FlagSet_Parse M f arguments = parseLoop M (f\<lparr>parsed := True, args := arguments\<rparr>)"

text \<open>
  \<^verbatim>\<open>flag.Parse()\<close> parses \<^verbatim>\<open>os.Args[1:]\<close> and ignores the error that
  \<^verbatim>\<open>CommandLine.Parse\<close> returns; an exit or a panic is not a return.
\<close>

definition flag_Parse :: "'v ValueMethods \<Rightarrow> 'v FlagSet \<Rightarrow> string list \<Rightarrow> Outcome \<times> 'v FlagSet" where
  "flag_Parse M f osArgs =
     (case FlagSet_Parse M f osArgs of
        (Returns e, f') \<Rightarrow> (Returns None, f')
      | (out, f') \<Rightarrow> (out, f'))"

section \<open>\<^verbatim>\<open>confy.go\<close>\<close>

definition quote :: string where
  "quote = [CHR 0x22]"

definition updateWarning :: "string \<Rightarrow> string \<Rightarrow> string" where
  "updateWarning appName cPath =
     ''!!!!!!!!!!\<newline>! WARNING: .'' @ appName @ ''inf0 was probably updated,\<newline>''
     @ ''! Check and update '' @ cPath @ '' as necessary\<newline>''
     @ ''! and remove the last '' @ quote @ ''deprecated'' @ quote
     @ '' paragraph to disable this message!\<newline>!!!!!!!!!!\<newline>''"

definition configHeader :: "string \<Rightarrow> string" where
  "configHeader appName =
     ''# '' @ appName @ '' configuration\<newline>''
     @ ''# \<newline>''
     @ ''# This config has https://github.com/schachmat/ingo syntax.\<newline>''
     @ ''# Empty lines or lines starting with # will be ignored.\<newline>''
     @ ''# All other lines must look like '' @ quote @ ''KEY=VALUE'' @ quote
     @ '' (without the quotes).\<newline>''
     @ ''# The VALUE must not be enclosed in quotes as well!\<newline>''"

text \<open>
  The functions of the standard library whose tables are not spelled out here
  (\<^verbatim>\<open>strings.ToUpper\<close>, \<^verbatim>\<open>strings.ToLower\<close>, \<^verbatim>\<open>filepath.Join\<close> of two elements)
  and the order in which \<^verbatim>\<open>range\<close> visits the entries of a map, which the runtime
  chooses: \<open>rangeOrder\<close> maps the entries of a map to a permutation of them.
\<close>

record StdLib =
  ToUpper :: "string \<Rightarrow> string"
  ToLower :: "string \<Rightarrow> string"
  Join :: "string \<Rightarrow> string \<Rightarrow> string"
  rangeOrder :: "(string \<times> string) list \<Rightarrow> (string \<times> string) list"

text \<open>
  The process and its surroundings: the flag set \<^verbatim>\<open>flag.CommandLine\<close>, the arguments
  \<^verbatim>\<open>os.Args[1:]\<close>, the environment, the outcome of \<^verbatim>\<open>user.Current()\<close> (an error or
  the home directory), the files by path, and what the logger has been given.
  \<open>readFault\<close> is the error of a read that fails although the file may exist;
  \<open>writeFault\<close> is the error of a failing write, with what the failed write leaves of
  the file.
\<close>

record 'v World =
  CommandLine :: "'v FlagSet"
  osArgs :: "string list"
  environ :: "string \<Rightarrow> string option"
  Current :: "string + string"
  files :: "string \<Rightarrow> string option"
  readFault :: "string \<Rightarrow> string option"
  writeFault :: "string \<Rightarrow> (string \<times> string option) option"
  logged :: "string list"

definition Getenv :: "'v World \<Rightarrow> string \<Rightarrow> string" where
  "Getenv w key = (case environ w key of None \<Rightarrow> [] | Some v \<Rightarrow> v)"

datatype PathError = NotExist | OtherError string

definition ReadFile :: "'v World \<Rightarrow> string \<Rightarrow> PathError + string" where
  "ReadFile w path =
     (case readFault w path of
        Some e \<Rightarrow> Inl (OtherError e)
      | None \<Rightarrow> (case files w path of None \<Rightarrow> Inl NotExist | Some data \<Rightarrow> Inr data))"

definition WriteFile :: "'v World \<Rightarrow> string \<Rightarrow> string \<Rightarrow> string option \<times> 'v World" where
  "WriteFile w path data =
     (case writeFault w path of
        Some (e, left) \<Rightarrow> (Some e, w\<lparr>files := fun_upd (files w) path left\<rparr>)
      | None \<Rightarrow> (None, w\<lparr>files := fun_upd (files w) path (Some data)\<rparr>))"

definition getConfigFilePath :: "StdLib \<Rightarrow> 'v World \<Rightarrow> string \<Rightarrow> error + string" where
  "getConfigFilePath L w appName =
     (let envname = ToUpper L appName @ ''INF0'';
          cPath = Getenv w envname
      in if cPath = [] then
           (case Current w of
              Inl err \<Rightarrow> Inl (UserCurrentFailed err envname)
            | Inr homeDir \<Rightarrow> Inr (Join L homeDir (''.'' @ ToLower L appName @ ''inf0'')))
         else Inr cPath)"

text \<open>
  The body of the loop of \<^verbatim>\<open>parseConfig\<close> for one text of the scanner, on the flag set
  and the map \<^verbatim>\<open>obsKeys\<close> (its entries, a key at most once).
\<close>

definition parseLine :: "'v ValueMethods \<Rightarrow> 'v FlagSet \<times> (string \<times> string) list \<Rightarrow> string
    \<Rightarrow> 'v FlagSet \<times> (string \<times> string) list" where
  "parseLine M st text =
     (let (f, obsKeys) = st;
          line = TrimSpace text
      in if HasPrefix line ''#'' \<or> line = [] then (f, obsKeys)
         else
           let i = IndexAny line ''=:'' in
           if i = - 1 then (f, obsKeys)
           else
             let key = TrimSpace (take (nat i) line);
                 val = TrimSpace (drop (nat i + 1) line)
             in (case flag_Set M f key val of
                   (Some err, f') \<Rightarrow> (f', AList.update key val obsKeys)
                 | (None, f') \<Rightarrow> (f', obsKeys)))"

definition parseConfig :: "'v ValueMethods \<Rightarrow> 'v FlagSet \<Rightarrow> string
    \<Rightarrow> 'v FlagSet \<times> (string \<times> string) list" where
  "parseConfig M f r = foldl (parseLine M) (f, []) (scanLines r)"

text \<open>
  \<^verbatim>\<open>flag.UnquoteUsage\<close>, its second result: the usage with the first pair of back
  quotes removed, or as it is when there is no such pair.
\<close>

definition backquote :: char where
  "backquote = CHR 0x60"

definition UnquoteUsage :: "Flag \<Rightarrow> string" where
  "UnquoteUsage flg =
     (let usage = Usage flg;
          pre = takeWhile (\<lambda>c. c \<noteq> backquote) usage;
          rest = drop (length pre + 1) usage;
          name = takeWhile (\<lambda>c. c \<noteq> backquote) rest
      in if length pre < length usage \<and> length name < length rest
         then pre @ name @ drop (length name + 1) rest
         else usage)"

text \<open>The first \<^verbatim>\<open>VisitAll\<close> of \<^verbatim>\<open>saveConfig\<close>: one step, and the map it builds.\<close>

definition dedupStep :: "(nat \<Rightarrow> Flag option) \<Rightarrow> Flag \<Rightarrow> (nat \<Rightarrow> Flag option)" where
  "dedupStep deduped flg =
     (case deduped (Value flg) of
        None \<Rightarrow> fun_upd deduped (Value flg) (Some flg)
      | Some cur \<Rightarrow>
          if RuneCountInString (Name flg) > RuneCountInString (Name cur)
          then fun_upd deduped (Value flg) (Some flg)
          else deduped)"

definition dedup :: "'v FlagSet \<Rightarrow> (nat \<Rightarrow> Flag option)" where
  "dedup f = foldl dedupStep (\<lambda>a. None) (sortFlags (formal f))"

text \<open>
  The second \<^verbatim>\<open>VisitAll\<close>: what it writes for one flag. \<open>flagBlock\<close> is the output of
  the two \<^verbatim>\<open>Fprintf\<close> calls.
\<close>

definition tab :: char where
  "tab = CHR 0x09"

definition flagBlock :: "'v ValueMethods \<Rightarrow> 'v FlagSet \<Rightarrow> Flag \<Rightarrow> string" where
  "flagBlock M f flg =
     (let usage = UnquoteUsage flg;
          usage' = Replace usage ([newline] @ ''    '' @ [tab]) ([newline] @ ''# '')
      in [newline] @ ''# '' @ usage' @ '' (default '' @ DefValue flg @ '')'' @ [newline]
         @ Name flg @ ''='' @ Value_String M (heap f (Value flg)) @ [newline])"

definition writeFlag :: "'v ValueMethods \<Rightarrow> 'v FlagSet \<Rightarrow> (nat \<Rightarrow> Flag option) \<Rightarrow> Flag \<Rightarrow> string" where
  "writeFlag M f deduped flg =
     (case deduped (Value flg) of
        None \<Rightarrow> []
      | Some cur \<Rightarrow> if Name cur = Name flg then flagBlock M f flg else [])"

definition deprecatedHeader :: string where
  "deprecatedHeader =
     [newline, newline]
     @ ''# The following options are probably deprecated and not used currently!''
     @ [newline]"

definition obsLine :: "string \<times> string \<Rightarrow> string" where
  "obsLine kv = fst kv @ ''='' @ snd kv @ [newline]"

definition saveConfig :: "StdLib \<Rightarrow> 'v ValueMethods \<Rightarrow> 'v FlagSet \<Rightarrow> (string \<times> string) list \<Rightarrow> string" where
  "saveConfig L M f obsKeys =
     (let deduped = dedup f in
      concat (map (writeFlag M f deduped) (sortFlags (formal f)))
      @ (if length obsKeys > 0
         then deprecatedHeader @ concat (map obsLine (rangeOrder L obsKeys))
         else []))"

text \<open>
  \<^verbatim>\<open>Parse\<close>: what the call leaves behind, and the world afterwards. \<open>Parse_sync\<close> is
  the body from \<^verbatim>\<open>parseConfig\<close> on, with the path and the bytes read.
\<close>

definition logWarning :: "'v World \<Rightarrow> string \<Rightarrow> string \<Rightarrow> (string \<times> string) list \<Rightarrow> 'v World" where
  "logWarning w appName cPath obsoleteKeys =
     (if length obsoleteKeys > 0
      then w\<lparr>logged := logged w @ [updateWarning appName cPath]\<rparr>
      else w)"

definition writeIfChanged :: "'v World \<Rightarrow> string \<Rightarrow> string \<Rightarrow> string \<Rightarrow> string option \<times> 'v World" where
  "writeIfChanged w cPath oldConf newConf =
     (if oldConf \<noteq> newConf then WriteFile w cPath newConf else (None, w))"

definition Parse_sync :: "StdLib \<Rightarrow> 'v ValueMethods \<Rightarrow> 'v World \<Rightarrow> string \<Rightarrow> string \<Rightarrow> string
    \<Rightarrow> Outcome \<times> 'v World" where
  "Parse_sync L M w appName cPath oldConf =
     (let pc = parseConfig M (CommandLine w) oldConf;
          obsoleteKeys = snd pc;
          w2 = logWarning (w\<lparr>CommandLine := fst pc\<rparr>) appName cPath obsoleteKeys;
          newConf = configHeader appName @ saveConfig L M (CommandLine w2) obsoleteKeys;
          wr = writeIfChanged w2 cPath oldConf newConf;
          w3 = snd wr
      in (case fst wr of
            Some err \<Rightarrow> (Returns (Some (FailedToWrite cPath err)), w3)
          | None \<Rightarrow>
             (let fp = flag_Parse M (CommandLine w3) (osArgs w3)
              in (fst fp, w3\<lparr>CommandLine := snd fp\<rparr>))))"

definition Parse :: "StdLib \<Rightarrow> 'v ValueMethods \<Rightarrow> 'v World \<Rightarrow> string \<Rightarrow> Outcome \<times> 'v World" where
  "Parse L M w appName =
     (if Parsed (CommandLine w) then (Returns (Some FlagsParsedAlready), w)
      else case getConfigFilePath L w appName of
        Inl err \<Rightarrow> (Returns (Some err), w)
      | Inr cPath \<Rightarrow>
         (case ReadFile w cPath of
            Inl (OtherError err) \<Rightarrow> (Returns (Some (UnableToRead appName cPath err)), w)
          | Inl NotExist \<Rightarrow> Parse_sync L M w appName cPath []
          | Inr oldConf \<Rightarrow> Parse_sync L M w appName cPath oldConf))"

section \<open>Instances for examples\<close>

text \<open>
  The values behind \<^verbatim>\<open>flag.String\<close> and \<^verbatim>\<open>flag.Bool\<close>: \<^verbatim>\<open>*stringValue\<close> stores
  the text as it is; \<^verbatim>\<open>*boolValue\<close> stores what \<^verbatim>\<open>strconv.ParseBool\<close> returns,
  which is \<^verbatim>\<open>false\<close> together with the error for a text it does not accept.
\<close>

datatype BuiltinValue = stringValue string | boolValue bool

definition ParseBool :: "string \<Rightarrow> bool option" where
  "ParseBool str =
     (if str \<in> set [''1'', ''t'', ''T'', ''true'', ''TRUE'', ''True''] then Some True
      else if str \<in> set [''0'', ''f'', ''F'', ''false'', ''FALSE'', ''False''] then Some False
      else None)"

definition builtin_Set :: "BuiltinValue \<Rightarrow> string \<Rightarrow> BuiltinValue \<times> string option" where
  "builtin_Set v s =
     (case v of
        stringValue old \<Rightarrow> (stringValue s, None)
      | boolValue old \<Rightarrow>
          (case ParseBool s of
             Some b \<Rightarrow> (boolValue b, None)
           | None \<Rightarrow> (boolValue False, Some ''parse error'')))"

definition builtin_String :: "BuiltinValue \<Rightarrow> string" where
  "builtin_String v =
     (case v of stringValue s \<Rightarrow> s | boolValue b \<Rightarrow> (if b then ''true'' else ''false''))"

definition builtin_IsBoolFlag :: "BuiltinValue \<Rightarrow> bool" where
  "builtin_IsBoolFlag v = (case v of stringValue s \<Rightarrow> False | boolValue b \<Rightarrow> True)"

definition builtin :: "BuiltinValue ValueMethods" where
  "builtin = \<lparr>Value_Set = builtin_Set, Value_String = builtin_String,
     Value_IsBoolFlag = builtin_IsBoolFlag\<rparr>"

text \<open>
  The library on ASCII names and clean paths: there \<^verbatim>\<open>ToUpper\<close> and \<^verbatim>\<open>ToLower\<close>
  change the letters \<^verbatim>\<open>a\<close> to \<^verbatim>\<open>z\<close> only, and \<^verbatim>\<open>Join\<close> puts one separator
  between a directory and a file name. \<open>rangeOrder\<close> is the order of insertion.
\<close>

definition asciiUpper :: "char \<Rightarrow> char" where
  "asciiUpper c = (if 97 \<le> byte c \<and> byte c \<le> 122 then char_of (byte c - 32) else c)"

definition asciiLower :: "char \<Rightarrow> char" where
  "asciiLower c = (if 65 \<le> byte c \<and> byte c \<le> 90 then char_of (byte c + 32) else c)"

definition asciiLib :: StdLib where
  "asciiLib = \<lparr>ToUpper = map asciiUpper, ToLower = map asciiLower,
     Join = (\<lambda>dir file. dir @ ''/'' @ file), rangeOrder = (\<lambda>kvs. kvs)\<rparr>"

text \<open>
  A flag set with a string flag \<^verbatim>\<open>host\<close> and a bool variable behind the two flags
  \<^verbatim>\<open>v\<close> and \<^verbatim>\<open>verbose\<close>, all at their defaults, and a world around it with the
  configuration path in the environment.
\<close>

definition exampleFlags :: "BuiltinValue FlagSet" where
  "exampleFlags =
     \<lparr>formal = [\<lparr>Name = ''verbose'', Usage = ''more output'', Value = 1, DefValue = ''false''\<rparr>,
                 \<lparr>Name = ''host'', Usage = ''host address'', Value = 0, DefValue = []\<rparr>,
                 \<lparr>Name = ''v'', Usage = ''more output'', Value = 1, DefValue = ''false''\<rparr>],
      heap = (\<lambda>a. if a = 1 then boolValue False else stringValue []),
      parsed = False, args = [], errorHandling = ExitOnError\<rparr>"

definition exampleWorld :: "string option \<Rightarrow> string list \<Rightarrow> BuiltinValue World" where
  "exampleWorld conf arguments =
     \<lparr>CommandLine = exampleFlags, osArgs = arguments,
      environ = (\<lambda>k. if k = ''MYAPPINF0'' then Some ''/tmp/conf'' else None),
      Current = Inr ''/home/u'',
      files = (\<lambda>p. if p = ''/tmp/conf'' then conf else None),
      readFault = (\<lambda>p. None), writeFault = (\<lambda>p. None), logged = []\<rparr>"

section \<open>The one-shot guard and the configuration path\<close>

lemma parseOne_parsed: "parsed (snd (snd (parseOne M f))) = parsed f"
  by (auto simp: parseOne_def Let_def setHeap_def split: list.splits if_splits prod.splits option.splits)

lemma parseLoop_parsed: "parsed (snd (parseLoop M f)) = parsed f"
proof (induction M f rule: parseLoop.induct)
  case (1 M f)
  obtain seen err f' where p: "parseOne M f = (seen, err, f')" by (cases "parseOne M f")
  from parseOne_parsed [of M f] p have pf: "parsed f' = parsed f" by simp
  show ?case
  proof (cases seen)
    case True
    with 1 p pf show ?thesis by (subst parseLoop.simps) simp
  next
    case False
    with p pf show ?thesis
      by (subst parseLoop.simps) (simp split: option.splits ErrorHandling.splits)
  qed
qed

lemma flag_Parse_snd: "snd (flag_Parse M f a) = snd (parseLoop M (f\<lparr>parsed := True, args := a\<rparr>))"
  by (simp add: flag_Parse_def FlagSet_Parse_def split: prod.splits Outcome.splits)

lemma flag_Parse_parsed: "parsed (snd (flag_Parse M f a))"
  by (simp add: flag_Parse_snd parseLoop_parsed)

lemma WriteFile_frame:
  "CommandLine (snd (WriteFile w p d)) = CommandLine w \<and> osArgs (snd (WriteFile w p d)) = osArgs w
   \<and> logged (snd (WriteFile w p d)) = logged w"
  by (simp add: WriteFile_def split: option.splits prod.splits)

lemma writeIfChanged_frame:
  "CommandLine (snd (writeIfChanged w p old new)) = CommandLine w
   \<and> osArgs (snd (writeIfChanged w p old new)) = osArgs w
   \<and> logged (snd (writeIfChanged w p old new)) = logged w"
  by (simp add: writeIfChanged_def WriteFile_frame)

lemma logWarning_frame:
  "CommandLine (logWarning w a p obs) = CommandLine w \<and> osArgs (logWarning w a p obs) = osArgs w
   \<and> files (logWarning w a p obs) = files w \<and> writeFault (logWarning w a p obs) = writeFault w"
  by (simp add: logWarning_def)

lemma Parse_sync_cases:
  "(\<exists>err. fst (Parse_sync L M w appName cPath oldConf) = Returns (Some (FailedToWrite cPath err)))
   \<or> (\<exists>f. CommandLine (snd (Parse_sync L M w appName cPath oldConf))
          = snd (flag_Parse M f (osArgs w)))"
  by (auto simp: Parse_sync_def Let_def writeIfChanged_frame logWarning_frame split: option.splits)

lemma Parse_sync_success_parsed:
  "fst (Parse_sync L M w appName cPath oldConf) = Returns None \<Longrightarrow>
   Parsed (CommandLine (snd (Parse_sync L M w appName cPath oldConf)))"
  using Parse_sync_cases [of L M w appName cPath oldConf] flag_Parse_parsed
  by (auto simp: Parsed_def)

lemma Parse_success_parsed:
  "fst (Parse L M w appName) = Returns None \<Longrightarrow> Parsed (CommandLine (snd (Parse L M w appName)))"
  by (auto simp: Parse_def Parse_sync_success_parsed split: sum.splits PathError.splits if_splits)

text \<open>
  Claim C6. When the flags have been parsed already, \<open>Parse\<close> returns the error
  \<^verbatim>\<open>flags have been parsed already\<close> and leaves the whole world as it was: the path
  is not resolved and no file is read or written, whatever the environment and the files
  are. A call that returned \<^verbatim>\<open>nil\<close> has parsed the flags, so the call after it fails
  this way and leaves the configuration file's bytes as they were.
\<close>

theorem Parse_one_shot:
  "(Parsed (CommandLine w) \<longrightarrow> Parse L M w appName = (Returns (Some FlagsParsedAlready), w))
   \<and> (fst (Parse L M w appName) = Returns None \<longrightarrow>
        Parse L M (snd (Parse L M w appName)) appName' =
          (Returns (Some FlagsParsedAlready), snd (Parse L M w appName)))"
  using Parse_success_parsed [of L M w appName] by (simp add: Parse_def)

theorem Parse_one_shot_witness:
  "Parsed (CommandLine (snd (Parse asciiLib builtin (exampleWorld None []) ''myapp'')))
   \<and> fst (Parse asciiLib builtin (exampleWorld None []) ''myapp'') = Returns None
   \<and> fst (Parse asciiLib builtin (snd (Parse asciiLib builtin (exampleWorld None []) ''myapp''))
        ''myapp'') = Returns (Some FlagsParsedAlready)
   \<and> files (snd (Parse asciiLib builtin
        (snd (Parse asciiLib builtin (exampleWorld None []) ''myapp'')) ''myapp'')) ''/tmp/conf''
       = files (snd (Parse asciiLib builtin (exampleWorld None []) ''myapp'')) ''/tmp/conf''"
proof -
  have h: "fst (Parse asciiLib builtin (exampleWorld None []) ''myapp'') = Returns None"
    by code_simp
  have p: "Parsed (CommandLine (snd (Parse asciiLib builtin (exampleWorld None []) ''myapp'')))"
    by code_simp
  from Parse_one_shot [of "exampleWorld None []" asciiLib builtin "''myapp''" "''myapp''"] h p
  show ?thesis by simp
qed

text \<open>
  Claim C7. The configuration path is the value of the environment variable named by the
  upper-cased application name followed by \<^verbatim>\<open>INF0\<close> when that variable is set and not
  empty; otherwise it is the home directory of the current user joined with a dot, the
  lower-cased application name and \<^verbatim>\<open>inf0\<close>; and the call fails exactly when the
  variable is unset or empty and the lookup of the current user fails.
\<close>

theorem getConfigFilePath_resolution:
  "(environ w (ToUpper L appName @ ''INF0'') = Some v \<and> v \<noteq> [] \<longrightarrow>
      getConfigFilePath L w appName = Inr v)
   \<and> ((environ w (ToUpper L appName @ ''INF0'') = None
        \<or> environ w (ToUpper L appName @ ''INF0'') = Some []) \<and> Current w = Inr homeDir \<longrightarrow>
      getConfigFilePath L w appName = Inr (Join L homeDir (''.'' @ ToLower L appName @ ''inf0'')))
   \<and> ((\<exists>e. getConfigFilePath L w appName = Inl e) \<longleftrightarrow>
      (environ w (ToUpper L appName @ ''INF0'') = None
        \<or> environ w (ToUpper L appName @ ''INF0'') = Some []) \<and> (\<exists>err. Current w = Inl err))"
  by (auto simp: getConfigFilePath_def Getenv_def Let_def split: option.splits sum.splits)

theorem getConfigFilePath_resolution_witness:
  "getConfigFilePath asciiLib (exampleWorld None []) ''myapp'' = Inr ''/tmp/conf''
   \<and> getConfigFilePath asciiLib (exampleWorld None []) ''Other'' = Inr ''/home/u/.otherinf0''
   \<and> (\<exists>e. getConfigFilePath asciiLib ((exampleWorld None [])\<lparr>Current := Inl ''no user''\<rparr>)
        ''Other'' = Inl e)"
proof -
  let ?w = "exampleWorld None []"
  have a: "environ ?w (ToUpper asciiLib ''myapp'' @ ''INF0'') = Some ''/tmp/conf''"
    by code_simp
  have b: "environ ?w (ToUpper asciiLib ''Other'' @ ''INF0'') = None" "Current ?w = Inr ''/home/u''"
    by code_simp+
  have c: "environ (?w\<lparr>Current := Inl ''no user''\<rparr>) (ToUpper asciiLib ''Other'' @ ''INF0'') = None"
    "Current (?w\<lparr>Current := Inl ''no user''\<rparr>) = Inl ''no user''"
    using b by simp_all
  have j: "Join asciiLib ''/home/u'' (''.'' @ ToLower asciiLib ''Other'' @ ''inf0'') = ''/home/u/.otherinf0''"
    by code_simp
  from getConfigFilePath_resolution [of ?w asciiLib "''myapp''" "''/tmp/conf''" "''/home/u''"] a
  have 1: "getConfigFilePath asciiLib ?w ''myapp'' = Inr ''/tmp/conf''" by simp
  from getConfigFilePath_resolution [of ?w asciiLib "''Other''" "[]" "''/home/u''"] b j
  have 2: "getConfigFilePath asciiLib ?w ''Other'' = Inr ''/home/u/.otherinf0''" by simp
  from getConfigFilePath_resolution [of "?w\<lparr>Current := Inl ''no user''\<rparr>" asciiLib "''Other''" "[]" "[]"] c
  have 3: "\<exists>e. getConfigFilePath asciiLib (?w\<lparr>Current := Inl ''no user''\<rparr>) ''Other'' = Inl e"
    by blast
  from 1 2 3 show ?thesis by blast
qed

section \<open>A failing write\<close>

lemma flag_Set_frame:
  "formal (snd (flag_Set M f k v)) = formal f \<and> parsed (snd (flag_Set M f k v)) = parsed f
   \<and> args (snd (flag_Set M f k v)) = args f
   \<and> errorHandling (snd (flag_Set M f k v)) = errorHandling f"
  by (simp add: flag_Set_def Let_def split: option.splits prod.splits)

text \<open>
  What the loop body of \<^verbatim>\<open>parseConfig\<close> extracts from one text of the scanner: the key
  and the value it hands to \<^verbatim>\<open>flag.Set\<close>, or nothing for a text it skips.
  \<open>parseLine_assignment\<close> shows that this is what \<open>parseLine\<close> does.
\<close>

definition lineAssignment :: "string \<Rightarrow> (string \<times> string) option" where
  "lineAssignment text =
     (let line = TrimSpace text in
      if HasPrefix line ''#'' \<or> line = [] then None
      else
        let i = IndexAny line ''=:'' in
        if i = - 1 then None
        else Some (TrimSpace (take (nat i) line), TrimSpace (drop (nat i + 1) line)))"

lemma parseLine_assignment:
  "parseLine M (f, obs) text =
     (case lineAssignment text of
        None \<Rightarrow> (f, obs)
      | Some (key, val) \<Rightarrow>
          (snd (flag_Set M f key val),
           if fst (flag_Set M f key val) = None then obs else AList.update key val obs))"
  by (auto simp: parseLine_def lineAssignment_def Let_def split: prod.splits option.splits)

lemma parseLine_frame:
  "formal (fst (parseLine M st text)) = formal (fst st)
   \<and> parsed (fst (parseLine M st text)) = parsed (fst st)
   \<and> args (fst (parseLine M st text)) = args (fst st)
   \<and> errorHandling (fst (parseLine M st text)) = errorHandling (fst st)"
  by (cases st) (simp add: parseLine_assignment flag_Set_frame split: option.splits)

lemma parseLines_frame:
  "formal (fst (foldl (parseLine M) st ls)) = formal (fst st)
   \<and> parsed (fst (foldl (parseLine M) st ls)) = parsed (fst st)
   \<and> args (fst (foldl (parseLine M) st ls)) = args (fst st)
   \<and> errorHandling (fst (foldl (parseLine M) st ls)) = errorHandling (fst st)"
  by (induction ls arbitrary: st) (simp_all add: parseLine_frame)

lemma parseConfig_frame:
  "formal (fst (parseConfig M f r)) = formal f \<and> parsed (fst (parseConfig M f r)) = parsed f
   \<and> args (fst (parseConfig M f r)) = args f
   \<and> errorHandling (fst (parseConfig M f r)) = errorHandling f"
  using parseLines_frame [of M "(f, [])" "scanLines r"] by (simp add: parseConfig_def)

lemma Parse_sync_write_fails:
  assumes "oldConf \<noteq> configHeader appName
             @ saveConfig L M (fst (parseConfig M (CommandLine w) oldConf))
                 (snd (parseConfig M (CommandLine w) oldConf))"
    and "writeFault w cPath = Some (e, left)"
  shows "fst (Parse_sync L M w appName cPath oldConf) = Returns (Some (FailedToWrite cPath e))
       \<and> CommandLine (snd (Parse_sync L M w appName cPath oldConf))
           = fst (parseConfig M (CommandLine w) oldConf)"
  using assms
  by (simp add: Parse_sync_def Let_def writeIfChanged_def WriteFile_def logWarning_frame)

text \<open>
  Claim C9. When the configuration has changed and writing it fails, \<open>Parse\<close> returns the
  error \<^verbatim>\<open>failed to write\<close> with the path; the flag set it leaves is the one
  \<^verbatim>\<open>parseConfig\<close> produced, so every value applied from the file stays applied, and
  the command line has not been parsed.
\<close>

theorem Parse_write_failure_keeps_values:
  assumes "\<not> Parsed (CommandLine w)"
    and "getConfigFilePath L w appName = Inr cPath"
    and "ReadFile w cPath = Inr oldConf \<or> ReadFile w cPath = Inl NotExist \<and> oldConf = []"
    and "oldConf \<noteq> configHeader appName
             @ saveConfig L M (fst (parseConfig M (CommandLine w) oldConf))
                 (snd (parseConfig M (CommandLine w) oldConf))"
    and "writeFault w cPath = Some (e, left)"
  shows "fst (Parse L M w appName) = Returns (Some (FailedToWrite cPath e))
       \<and> CommandLine (snd (Parse L M w appName)) = fst (parseConfig M (CommandLine w) oldConf)
       \<and> \<not> Parsed (CommandLine (snd (Parse L M w appName)))"
proof -
  have eq: "Parse L M w appName = Parse_sync L M w appName cPath oldConf"
    using assms(1-3) by (auto simp: Parse_def)
  have "parsed (fst (parseConfig M (CommandLine w) oldConf)) = parsed (CommandLine w)"
    by (simp add: parseConfig_frame)
  with Parse_sync_write_fails [OF assms(4,5)] assms(1) eq show ?thesis
    by (simp add: Parsed_def)
qed


text \<open>The example world with a disk that is full.\<close>

definition faultyWorld :: "BuiltinValue World" where
  "faultyWorld = (exampleWorld (Some ''host=example.org\<newline>'') [])
     \<lparr>writeFault := (\<lambda>p. Some (''no space left on device'', Some []))\<rparr>"

theorem Parse_write_failure_keeps_values_witness:
  "fst (Parse asciiLib builtin faultyWorld ''myapp'')
     = Returns (Some (FailedToWrite ''/tmp/conf'' ''no space left on device''))
   \<and> heap (CommandLine (snd (Parse asciiLib builtin faultyWorld ''myapp''))) 0
     = stringValue ''example.org''"
proof -
  have 1: "\<not> Parsed (CommandLine faultyWorld)" by code_simp
  have 2: "getConfigFilePath asciiLib faultyWorld ''myapp'' = Inr ''/tmp/conf''" by code_simp
  have 3: "ReadFile faultyWorld ''/tmp/conf'' = Inr ''host=example.org\<newline>''" by code_simp
  have 4: "''host=example.org\<newline>'' \<noteq> configHeader ''myapp''
             @ saveConfig asciiLib builtin
                 (fst (parseConfig builtin (CommandLine faultyWorld) ''host=example.org\<newline>''))
                 (snd (parseConfig builtin (CommandLine faultyWorld) ''host=example.org\<newline>''))"
    by (simp add: configHeader_def)
  have 5: "writeFault faultyWorld ''/tmp/conf'' = Some (''no space left on device'', Some [])"
    by code_simp
  have 6: "heap (fst (parseConfig builtin (CommandLine faultyWorld) ''host=example.org\<newline>'')) 0
     = stringValue ''example.org''" by code_simp
  from Parse_write_failure_keeps_values [OF 1 2 _ 4 5] 3 6
  show ?thesis by simp
qed

section \<open>One block for the flags of one value\<close>

























section \<open>The line parser\<close>

lemma set_TrimRightFunc: "set (TrimRightFunc s f) \<subseteq> set s"
  by (simp add: TrimRightFunc_def Let_def set_take_subset)

lemma set_TrimLeftFunc: "set (TrimLeftFunc s f) \<subseteq> set s"
  by (simp add: TrimLeftFunc_def Let_def set_drop_subset)

lemma set_TrimFunc: "set (TrimFunc s f) \<subseteq> set s"
  using set_TrimRightFunc [of "TrimLeftFunc s f" f] set_TrimLeftFunc [of s f]
  by (auto simp: TrimFunc_def)

lemma set_trimStop: "set (trimStop s) \<subseteq> set s"
proof (induction s rule: trimStop.induct)
  case (1 s)
  show ?case
  proof (cases "s = []")
    case True
    then show ?thesis by (subst trimStop.simps) simp
  next
    case False
    show ?thesis
    proof (cases "RuneSelf \<le> byte (last s)")
      case True
      with False set_TrimRightFunc [of s IsSpace] show ?thesis
        by (subst trimStop.simps) (simp add: Let_def)
    next
      case hi: False
      show ?thesis
      proof (cases "asciiSpace (byte (last s))")
        case True
        with False hi 1 have "set (trimStop (butlast s)) \<subseteq> set (butlast s)" by simp
        moreover have "set (butlast s) \<subseteq> set s" by (meson in_set_butlastD subsetI)
        ultimately show ?thesis
          using False hi True by (subst trimStop.simps) (auto simp: Let_def)
      next
        case nsp: False
        with False hi show ?thesis by (subst trimStop.simps) (simp add: Let_def)
      qed
    qed
  qed
qed

lemma set_TrimSpace: "set (TrimSpace s) \<subseteq> set s"
proof (induction s)
  case Nil
  show ?case using set_trimStop [of "[]"] by simp
next
  case (Cons c cs)
  show ?case
    using Cons set_TrimFunc [of "c # cs" IsSpace] set_trimStop [of "c # cs"]
    by auto
qed

lemma IndexAny_nonneg: "IndexAny s chars = - 1 \<or> 0 \<le> IndexAny s chars"
  by (induction s) (auto simp: Let_def)

lemma IndexAny_none: "IndexAny s chars = - 1 \<longleftrightarrow> set s \<inter> set chars = {}"
proof (induction s)
  case Nil
  show ?case by simp
next
  case (Cons c s)
  from IndexAny_nonneg [of s chars] have "IndexAny s chars + 1 \<noteq> - 1" by auto
  with Cons show ?case by (auto simp: Let_def)
qed

lemma IndexAny_first:
  "set pre \<inter> set chars = {} \<Longrightarrow> sep \<in> set chars \<Longrightarrow>
   IndexAny (pre @ sep # post) chars = int (length pre)"
proof (induction pre)
  case Nil
  then show ?case by simp
next
  case (Cons c pre)
  then have "IndexAny (pre @ sep # post) chars = int (length pre)" by simp
  with Cons.prems show ?case by (auto simp: Let_def)
qed

lemma lineAssignment_split:
  assumes "TrimSpace text = pre @ sep # post" and "sep = CHR ''='' \<or> sep = CHR '':''"
    and "CHR ''='' \<notin> set pre" and "CHR '':'' \<notin> set pre"
    and "\<not> HasPrefix (TrimSpace text) ''#''"
  shows "lineAssignment text = Some (TrimSpace pre, TrimSpace post)"
proof -
  have "IndexAny (pre @ sep # post) ''=:'' = int (length pre)"
    using assms(2-4) by (intro IndexAny_first) auto
  with assms(1,5) show ?thesis by (simp add: lineAssignment_def Let_def)
qed

lemma lineAssignment_no_separator:
  assumes "CHR ''='' \<notin> set text" and "CHR '':'' \<notin> set text"
  shows "lineAssignment text = None"
proof -
  from assms set_TrimSpace [of "text"] have "set (TrimSpace text) \<inter> set ''=:'' = {}" by auto
  then have "IndexAny (TrimSpace text) ''=:'' = - 1" by (simp only: IndexAny_none)
  then show ?thesis by (simp add: lineAssignment_def Let_def)
qed

text \<open>
  The lines of a file, told without the scanner: \<open>splitNewline\<close> cuts a text at its line
  breaks, and a text that ends with a line break has no further, empty line after it.
\<close>

fun splitNewline :: "string \<Rightarrow> string list" where
  "splitNewline [] = [[]]"
| "splitNewline (c # cs) =
     (if c = newline then [] # splitNewline cs
      else (case splitNewline cs of [] \<Rightarrow> [[c]] | l # ls \<Rightarrow> (c # l) # ls))"

definition fileLines :: "string \<Rightarrow> string list" where
  "fileLines data =
     (let ls = splitNewline data in if last ls = [] then butlast ls else ls)"

definition fitsBuffer :: "string \<Rightarrow> bool" where
  "fitsBuffer l \<longleftrightarrow> int (length l) < MaxScanTokenSize"

lemma splitNewline_nonempty: "splitNewline s \<noteq> []"
  by (induction s) (auto split: list.splits)

lemma splitNewline_no_newline: "newline \<notin> set s \<Longrightarrow> splitNewline s = [s]"
  by (induction s) auto

lemma splitNewline_append:
  "splitNewline (a @ newline # b) = splitNewline a @ splitNewline b"
proof (induction a)
  case Nil
  show ?case by simp
next
  case (Cons c a)
  with splitNewline_nonempty [of a] show ?case by (cases "splitNewline a") auto
qed

lemma fileLines_Nil: "fileLines [] = []"
  by (simp add: fileLines_def)

lemma fileLines_last_line: "newline \<notin> set s \<Longrightarrow> s \<noteq> [] \<Longrightarrow> fileLines s = [s]"
  by (simp add: fileLines_def splitNewline_no_newline)

lemma fileLines_line:
  assumes "newline \<notin> set l"
  shows "fileLines (l @ newline # rest) = l # fileLines rest"
proof -
  have sp: "splitNewline (l @ newline # rest) = l # splitNewline rest"
    using assms by (simp add: splitNewline_append splitNewline_no_newline)
  with splitNewline_nonempty [of rest] show ?thesis
    by (simp add: fileLines_def Let_def)
qed

lemma takeWhile_line: "newline \<notin> set (takeWhile (\<lambda>c. c \<noteq> newline) s)"
  by (induction s) auto

lemma line_then_rest:
  assumes "length (takeWhile (\<lambda>c. c \<noteq> newline) s) < length s"
  shows "s = takeWhile (\<lambda>c. c \<noteq> newline) s @ newline
            # drop (length (takeWhile (\<lambda>c. c \<noteq> newline) s) + 1) s"
proof -
  let ?l = "takeWhile (\<lambda>c. c \<noteq> newline) s"
  have s: "s = ?l @ dropWhile (\<lambda>c. c \<noteq> newline) s" by simp
  from assms have ne: "dropWhile (\<lambda>c. c \<noteq> newline) s \<noteq> []"
    by (metis append_Nil2 less_irrefl s)
  then have "hd (dropWhile (\<lambda>c. c \<noteq> newline) s) = newline"
    using hd_dropWhile [of "\<lambda>c. c \<noteq> newline" s] by auto
  with ne have d: "dropWhile (\<lambda>c. c \<noteq> newline) s = newline # tl (dropWhile (\<lambda>c. c \<noteq> newline) s)"
    by (cases "dropWhile (\<lambda>c. c \<noteq> newline) s") auto
  have "drop (length ?l + 1) s = tl (dropWhile (\<lambda>c. c \<noteq> newline) s)"
    by (metis One_nat_def add.commute drop_drop dropWhile_eq_drop drop_Suc drop_0 plus_1_eq_Suc tl_drop)
  with s d show ?thesis by metis
qed

lemma scanLines_fileLines:
  "scanLines data = map dropCR (takeWhile fitsBuffer (fileLines data))"
proof (induction data rule: scanLines.induct)
  case (1 data)
  let ?l = "takeWhile (\<lambda>c. c \<noteq> newline) data"
  show ?case
  proof (cases "data = []")
    case True
    then show ?thesis by (subst scanLines.simps) (simp add: fileLines_Nil)
  next
    case ne: False
    show ?thesis
    proof (cases "length ?l < length data")
      case True
      from line_then_rest [OF True]
      have d: "data = ?l @ newline # drop (length ?l + 1) data" .
      have fl: "fileLines data = ?l # fileLines (drop (length ?l + 1) data)"
        by (subst d) (simp add: fileLines_line takeWhile_line)
      show ?thesis
      proof (cases "MaxScanTokenSize \<le> int (length ?l)")
        case long: True
        with ne fl show ?thesis
          by (subst scanLines.simps) (simp add: Let_def fitsBuffer_def)
      next
        case short: False
        with ne True 1 have "scanLines (drop (length ?l + 1) data)
            = map dropCR (takeWhile fitsBuffer (fileLines (drop (length ?l + 1) data)))"
          by simp
        with ne True short fl show ?thesis
          by (subst scanLines.simps) (simp add: Let_def fitsBuffer_def)
      qed
    next
      case False
      then have all: "?l = data"
        by (metis length_takeWhile_le le_neq_implies_less takeWhile_eq_take take_all_iff order_refl)
      then have "newline \<notin> set data" using takeWhile_line [of data] by auto
      with ne have fl: "fileLines data = [data]" by (simp add: fileLines_last_line)
      show ?thesis
        by (subst scanLines.simps) (simp add: Let_def fitsBuffer_def all ne fl)
    qed
  qed
qed


text \<open>
  Trimming told without the loops of \<^verbatim>\<open>strings.TrimSpace\<close>, for a text of ASCII bytes:
  the blanks of the table \<^verbatim>\<open>asciiSpace\<close> are dropped from both ends.
\<close>

definition asciiBlank :: "char \<Rightarrow> bool" where
  "asciiBlank c \<longleftrightarrow> asciiSpace (byte c)"

definition trimBlanks :: "string \<Rightarrow> string" where
  "trimBlanks s = rev (dropWhile asciiBlank (rev (dropWhile asciiBlank s)))"

lemma trimStop_ascii:
  "\<forall>c \<in> set s. byte c < RuneSelf \<Longrightarrow> trimStop s = rev (dropWhile asciiBlank (rev s))"
proof (induction s rule: trimStop.induct)
  case (1 s)
  show ?case
  proof (cases "s = []")
    case True
    then show ?thesis by (subst trimStop.simps) simp
  next
    case False
    then have rs: "rev s = last s # rev (butlast s)"
      by (metis append_butlast_last_id rev_eq_Cons_iff rev_rev_ident)
    from False "1.prems" have lo: "\<not> RuneSelf \<le> byte (last s)" by (simp add: not_le)
    show ?thesis
    proof (cases "asciiSpace (byte (last s))")
      case True
      from "1.prems" have "\<forall>c \<in> set (butlast s). byte c < RuneSelf"
        by (meson in_set_butlastD)
      with False lo True "1.IH" have "trimStop (butlast s) = rev (dropWhile asciiBlank (rev (butlast s)))"
        by simp
      moreover have "rev (dropWhile asciiBlank (rev s)) = rev (dropWhile asciiBlank (rev (butlast s)))"
        by (simp add: rs asciiBlank_def True)
      ultimately show ?thesis using False lo True by (subst trimStop.simps) (simp add: Let_def)
    next
      case nb: False
      have "rev (dropWhile asciiBlank (rev s)) = rev (rev s)"
        by (simp only: rs) (simp add: asciiBlank_def nb)
      then have "rev (dropWhile asciiBlank (rev s)) = s" by simp
      with False lo nb show ?thesis by (subst trimStop.simps) (simp add: Let_def)
    qed
  qed
qed

lemma TrimSpace_ascii:
  "\<forall>c \<in> set s. byte c < RuneSelf \<Longrightarrow> TrimSpace s = trimBlanks s"
proof (induction s)
  case Nil
  show ?case using trimStop_ascii [of "[]"] by (simp add: trimBlanks_def)
next
  case (Cons c cs)
  then have lo: "\<not> RuneSelf \<le> byte c" by (simp add: not_le)
  show ?case
  proof (cases "asciiSpace (byte c)")
    case True
    with Cons lo show ?thesis by (simp add: trimBlanks_def asciiBlank_def)
  next
    case False
    with lo trimStop_ascii [OF Cons.prems] show ?thesis
      by (simp add: trimBlanks_def asciiBlank_def)
  qed
qed

lemma fitsBuffer_limit: "fitsBuffer l \<longleftrightarrow> length l < 65536"
  by (simp add: fitsBuffer_def MaxScanTokenSize_def)

lemma parseConfig_fileLines:
  "parseConfig M f r = foldl (parseLine M) (f, []) (map dropCR (takeWhile fitsBuffer (fileLines r)))"
  by (simp add: parseConfig_def scanLines_fileLines)

text \<open>
  Claim C5, as amended. \<^verbatim>\<open>parseConfig\<close> runs its loop body, in order, on the lines
  of the file that come before the first line of 65536 bytes or more, each without a
  carriage return at its end; the scanner stops at such a line, so that for a file whose
  lines are all shorter the body runs on every line. The body trims the text (for a text
  of ASCII bytes: it drops the blanks at both ends) and leaves the flag set and the
  obsolete entries as they are when the trimmed text is empty or begins with
  \<^verbatim>\<open>#\<close>, and also when the text holds neither \<^verbatim>\<open>=\<close> nor \<^verbatim>\<open>:\<close>; no error
  comes of either. Otherwise it splits the trimmed text at its first \<^verbatim>\<open>=\<close> or
  \<^verbatim>\<open>:\<close> and hands the trimmed part before it as the key and the trimmed part after
  it, taken literally, as the value to \<^verbatim>\<open>flag.Set\<close>.
\<close>

theorem parseConfig_every_scanned_line:
  "parseConfig M f r
     = foldl (parseLine M) (f, []) (map dropCR (takeWhile fitsBuffer (fileLines r)))
   \<and> (fitsBuffer l \<longleftrightarrow> length l < 65536)
   \<and> ((\<forall>l \<in> set (fileLines r). fitsBuffer l) \<longrightarrow>
        parseConfig M f r = foldl (parseLine M) (f, []) (map dropCR (fileLines r)))
   \<and> (TrimSpace text = [] \<or> HasPrefix (TrimSpace text) ''#'' \<longrightarrow> parseLine M st text = st)
   \<and> (CHR ''='' \<notin> set text \<and> CHR '':'' \<notin> set text \<longrightarrow> parseLine M st text = st)
   \<and> (TrimSpace text = pre @ sep # post \<and> (sep = CHR ''='' \<or> sep = CHR '':'')
        \<and> CHR ''='' \<notin> set pre \<and> CHR '':'' \<notin> set pre \<and> \<not> HasPrefix (TrimSpace text) ''#'' \<longrightarrow>
      parseLine M (f, obs) text =
        (snd (flag_Set M f (TrimSpace pre) (TrimSpace post)),
         if fst (flag_Set M f (TrimSpace pre) (TrimSpace post)) = None then obs
         else AList.update (TrimSpace pre) (TrimSpace post) obs))
   \<and> ((\<forall>c \<in> set text. byte c < RuneSelf) \<longrightarrow> TrimSpace text = trimBlanks text)"
proof -
  obtain f0 obs0 where st: "st = (f0, obs0)" by (cases st)
  have all: "(\<forall>l \<in> set (fileLines r). fitsBuffer l) \<longrightarrow>
        parseConfig M f r = foldl (parseLine M) (f, []) (map dropCR (fileLines r))"
  proof
    assume "\<forall>l \<in> set (fileLines r). fitsBuffer l"
    then have tw: "takeWhile fitsBuffer (fileLines r) = fileLines r"
      by (simp add: takeWhile_eq_all_conv)
    show "parseConfig M f r = foldl (parseLine M) (f, []) (map dropCR (fileLines r))"
      unfolding parseConfig_fileLines tw by (rule refl)
  qed
  have a: "TrimSpace text = [] \<or> HasPrefix (TrimSpace text) ''#'' \<longrightarrow> parseLine M st text = st"
    by (auto simp: st parseLine_assignment lineAssignment_def)
  have b: "CHR ''='' \<notin> set text \<and> CHR '':'' \<notin> set text \<longrightarrow> parseLine M st text = st"
    by (simp add: st parseLine_assignment lineAssignment_no_separator)
  have c: "TrimSpace text = pre @ sep # post \<and> (sep = CHR ''='' \<or> sep = CHR '':'')
        \<and> CHR ''='' \<notin> set pre \<and> CHR '':'' \<notin> set pre \<and> \<not> HasPrefix (TrimSpace text) ''#'' \<longrightarrow>
      parseLine M (f, obs) text =
        (snd (flag_Set M f (TrimSpace pre) (TrimSpace post)),
         if fst (flag_Set M f (TrimSpace pre) (TrimSpace post)) = None then obs
         else AList.update (TrimSpace pre) (TrimSpace post) obs)"
    using lineAssignment_split [of "text" pre sep post]
    by (auto simp: parseLine_assignment)
  have d: "(\<forall>c \<in> set text. byte c < RuneSelf) \<longrightarrow> TrimSpace text = trimBlanks text"
    using TrimSpace_ascii [of "text"] by blast
  from parseConfig_fileLines [of M f r] fitsBuffer_limit [of l] all a b c d show ?thesis
    by blast
qed

text \<open>
  A line between a no-break space and an em space, as \<^verbatim>\<open>UTF-8\<close>, and a file with a
  comment that ends in a carriage return, an assignment and a line without separator.
\<close>

definition wideBlanksLine :: string where
  "wideBlanksLine = [CHR 0xC2, CHR 0xA0] @ ''host=h'' @ [CHR 0xE2, CHR 0x80, CHR 0x83]"

definition threeLines :: string where
  "threeLines = ''# c'' @ [CHR 0x0D, newline] @ '' host : a=b '' @ [newline] @ ''junk''"

theorem parseConfig_every_scanned_line_witness:
  "heap (fst (parseConfig builtin exampleFlags threeLines)) 0 = stringValue ''a=b''
   \<and> snd (parseConfig builtin exampleFlags threeLines) = []
   \<and> parseLine builtin (exampleFlags, []) ''# host=h'' = (exampleFlags, [])
   \<and> parseLine builtin (exampleFlags, []) ''just some text'' = (exampleFlags, [])
   \<and> heap (fst (parseLine builtin (exampleFlags, []) wideBlanksLine)) 0 = stringValue ''h''
   \<and> TrimSpace (''  a b'' @ [CHR 0x09, CHR 0x0D]) = ''a b''"
proof -
  have f1: "fileLines threeLines = [''# c'' @ [CHR 0x0D], '' host : a=b '', ''junk'']"
    by code_simp
  have f2: "\<forall>l \<in> set (fileLines threeLines). fitsBuffer l" unfolding f1 by code_simp
  have f3: "heap (fst (foldl (parseLine builtin) (exampleFlags, []) (map dropCR (fileLines threeLines)))) 0
      = stringValue ''a=b''"
    "snd (foldl (parseLine builtin) (exampleFlags, []) (map dropCR (fileLines threeLines))) = []"
    unfolding f1 by code_simp+
  have t1: "TrimSpace ''# host=h'' = [] \<or> HasPrefix (TrimSpace ''# host=h'') ''#''"
    by code_simp
  have t2: "CHR ''='' \<notin> set ''just some text'' \<and> CHR '':'' \<notin> set ''just some text''"
    by simp
  have t3: "TrimSpace wideBlanksLine = ''host'' @ CHR ''='' # ''h''
     \<and> (CHR ''='' = CHR ''='' \<or> CHR ''='' = CHR '':'')
     \<and> CHR ''='' \<notin> set ''host'' \<and> CHR '':'' \<notin> set ''host''
     \<and> \<not> HasPrefix (TrimSpace wideBlanksLine) ''#''"
    by code_simp
  have t4: "TrimSpace ''host'' = ''host''" "TrimSpace ''h'' = ''h''" by code_simp+
  have t5: "heap (snd (flag_Set builtin exampleFlags ''host'' ''h'')) 0 = stringValue ''h''"
    by code_simp
  have t6: "\<forall>c \<in> set (''  a b'' @ [CHR 0x09, CHR 0x0D]). byte c < RuneSelf" by code_simp
  have t7: "trimBlanks (''  a b'' @ [CHR 0x09, CHR 0x0D]) = ''a b''" by code_simp
  note whole = parseConfig_every_scanned_line [where M = builtin and f = exampleFlags
      and r = threeLines]
  from whole f2 have "parseConfig builtin exampleFlags threeLines
      = foldl (parseLine builtin) (exampleFlags, []) (map dropCR (fileLines threeLines))" by blast
  with f3 have 0: "heap (fst (parseConfig builtin exampleFlags threeLines)) 0 = stringValue ''a=b''"
    "snd (parseConfig builtin exampleFlags threeLines) = []" by simp_all
  from parseConfig_every_scanned_line [where M = builtin and st = "(exampleFlags, [])"
      and ?text = "''# host=h''"] t1
  have 1: "parseLine builtin (exampleFlags, []) ''# host=h'' = (exampleFlags, [])" by blast
  from parseConfig_every_scanned_line [where M = builtin and st = "(exampleFlags, [])"
      and ?text = "''just some text''"] t2
  have 2: "parseLine builtin (exampleFlags, []) ''just some text'' = (exampleFlags, [])" by blast
  from parseConfig_every_scanned_line [where M = builtin and f = exampleFlags and obs = "[]"
      and ?text = wideBlanksLine and pre = "''host''" and sep = "CHR ''=''" and post = "''h''"] t3
  have 3: "parseLine builtin (exampleFlags, []) wideBlanksLine =
        (snd (flag_Set builtin exampleFlags (TrimSpace ''host'') (TrimSpace ''h'')),
         if fst (flag_Set builtin exampleFlags (TrimSpace ''host'') (TrimSpace ''h'')) = None then []
         else AList.update (TrimSpace ''host'') (TrimSpace ''h'') [])" by blast
  from parseConfig_every_scanned_line [where ?text = "''  a b'' @ [CHR 0x09, CHR 0x0D]"] t6 t7
  have 4: "TrimSpace (''  a b'' @ [CHR 0x09, CHR 0x0D]) = ''a b''" by metis
  from 0 1 2 3 4 t4 t5 show ?thesis by simp
qed

text \<open>A line of 65536 bytes.\<close>

definition longLine :: string where
  "longLine = replicate 65536 (CHR ''#'')"

lemma longLine_length: "length longLine = 65536"
  by (simp add: longLine_def)

lemma longLine_no_newline: "newline \<notin> set longLine"
  by (simp add: longLine_def newline_def)

text \<open>
  Claim C5 as stated fails for a line after a line of 65536 bytes: the scanner stops at
  the long line, and the assignment after it is never read.
\<close>

theorem line_after_long_line_counterexample:
  "fileLines (longLine @ newline # ''host=h'')
     = [longLine, ''host=h'']
   \<and> lineAssignment ''host=h'' = Some (''host'', ''h'')
   \<and> fst (flag_Set builtin exampleFlags ''host'' ''h'') = None
   \<and> heap (snd (flag_Set builtin exampleFlags ''host'' ''h'')) 0 = stringValue ''h''
   \<and> scanLines (longLine @ newline # ''host=h'') = []
   \<and> heap (fst (parseConfig builtin exampleFlags
        (longLine @ newline # ''host=h''))) 0 = stringValue []"
proof -
  let ?long = "longLine"
  have nl: "newline \<notin> set ?long" by (rule longLine_no_newline)
  have nl2: "newline \<notin> set ''host=h''" by (simp add: newline_def)
  have fl: "fileLines (?long @ newline # ''host=h'') = [?long, ''host=h'']"
    using fileLines_line [OF nl, of "''host=h''"] fileLines_last_line [OF nl2] by simp
  have nf: "\<not> fitsBuffer ?long"
    by (simp add: fitsBuffer_def MaxScanTokenSize_def longLine_length)
  have sc: "scanLines (?long @ newline # ''host=h'') = []"
    by (simp only: scanLines_fileLines fl) (simp add: nf)
  have h: "heap exampleFlags 0 = stringValue []" by (simp add: exampleFlags_def)
  have e: "lineAssignment ''host=h'' = Some (''host'', ''h'')"
    "fst (flag_Set builtin exampleFlags ''host'' ''h'') = None"
    "heap (snd (flag_Set builtin exampleFlags ''host'' ''h'')) 0 = stringValue ''h''"
    by code_simp+
  from fl sc h e show ?thesis by (simp add: parseConfig_def)
qed

section \<open>Obsolete entries\<close>






















section \<open>The last assignment to a value\<close>








section \<open>The block of a flag\<close>














end
